theory Spec2Isabelle
  imports Main "HOL-Library.AList" "HOL-Library.Multiset" "HOL-Library.Char_ord"
    "HOL-Library.List_Lexorder"
begin

section \<open>Documents and the store\<close>

text \<open>
  The backend of \<^verbatim>\<open>main.py\<close> keeps every entity as a document of a schemaless
  store.  A document is a Python dict; its values are \<^verbatim>\<open>None\<close>, strings, numbers
  and lists of strings (the \<^verbatim>\<open>tags\<close> of a resource).  The identifier \<^verbatim>\<open>_id\<close>
  that the store assigns to every document is kept beside the other fields, so that every
  stored document has one.
\<close>

datatype val = VNone | VStr string | VNum int | VList "string list"

type_synonym fields = "(string \<times> val) list"

record doc =
  oid :: nat
  body :: fields

text \<open>
  The store: for every collection name the documents in store-native order, and the next
  identifier to hand out.  The module-level handle \<^verbatim>\<open>db\<close> may be absent.
\<close>

record store =
  colls :: "string \<Rightarrow> doc list"
  next_oid :: nat

type_synonym db = "store option"

text \<open>
  Failures: \<^verbatim>\<open>HTTPException(status_code, detail)\<close> raised by the handlers, the
  store adapter's failure when no store is available, and Python's \<^verbatim>\<open>TypeError\<close>.
\<close>

datatype error = HTTPException nat string | Unavailable | TypeError

subsection \<open>Request models\<close>

record RegisterRequest =
  rr_name :: string
  rr_email :: string

record SubscribeRequest =
  sr_email :: string
  sr_provider :: string
  sr_company :: "string option"
  sr_notes :: "string option"

record MessageCreate =
  mc_member_email :: string
  mc_content :: string
  mc_channel :: string

record ResourceCreate =
  rc_title :: string
  rc_type :: string
  rc_description :: "string option"
  rc_url :: "string option"
  rc_tags :: "string list option"

record VideoCreate =
  vc_title :: string
  vc_vimeo_id :: string
  vc_description :: "string option"
  vc_category :: "string option"

text \<open>\<^verbatim>\<open>channel: str = "general"\<close>: a message body without a channel gets the default.\<close>

definition message_create :: "string \<Rightarrow> string \<Rightarrow> string option \<Rightarrow> MessageCreate" where
  "message_create e c ch =
     \<lparr>mc_member_email = e, mc_content = c,
      mc_channel = (case ch of None \<Rightarrow> ''general'' | Some x \<Rightarrow> x)\<rparr>"

definition opt_str :: "string option \<Rightarrow> val" where
  "opt_str x = (case x of None \<Rightarrow> VNone | Some s \<Rightarrow> VStr s)"

definition opt_list :: "string list option \<Rightarrow> val" where
  "opt_list x = (case x of None \<Rightarrow> VNone | Some s \<Rightarrow> VList s)"

text \<open>\<^verbatim>\<open>payload.model_dump()\<close> for the three payloads that are stored as they are.\<close>

definition message_dump :: "MessageCreate \<Rightarrow> fields" where
  "message_dump p =
     [(''member_email'', VStr (mc_member_email p)),
      (''content'', VStr (mc_content p)),
      (''channel'', VStr (mc_channel p))]"

definition resource_dump :: "ResourceCreate \<Rightarrow> fields" where
  "resource_dump p =
     [(''title'', VStr (rc_title p)),
      (''type'', VStr (rc_type p)),
      (''description'', opt_str (rc_description p)),
      (''url'', opt_str (rc_url p)),
      (''tags'', opt_list (rc_tags p))]"

definition video_dump :: "VideoCreate \<Rightarrow> fields" where
  "video_dump p =
     [(''title'', VStr (vc_title p)),
      (''vimeo_id'', VStr (vc_vimeo_id p)),
      (''description'', opt_str (vc_description p)),
      (''category'', opt_str (vc_category p))]"

subsection \<open>The collection operations of the driver\<close>

text \<open>
  \<^verbatim>\<open>m.get(k, default)\<close> and \<^verbatim>\<open>m.get(k)\<close> on a dict; the latter gives
  \<^verbatim>\<open>None\<close> for a missing key.
\<close>

definition dict_get_or :: "fields \<Rightarrow> string \<Rightarrow> val \<Rightarrow> val" where
  "dict_get_or f k dflt = (case map_of f k of None \<Rightarrow> dflt | Some v \<Rightarrow> v)"

definition dict_get :: "fields \<Rightarrow> string \<Rightarrow> val" where
  "dict_get f k = dict_get_or f k VNone"

text \<open>
  The query \<^verbatim>\<open>{k: v, ...}\<close> with string values: a document matches when each
  queried field is present with the queried value.
\<close>

definition matches :: "fields \<Rightarrow> doc \<Rightarrow> bool" where
  "matches q d = list_all (\<lambda>(k, v). map_of (body d) k = Some v) q"

text \<open>\<^verbatim>\<open>find_one(q)\<close>: the first matching document in store order, if any.\<close>

definition find_one :: "doc list \<Rightarrow> fields \<Rightarrow> doc option" where
  "find_one ds q = List.find (matches q) ds"

text \<open>\<^verbatim>\<open>{"$set": ups}\<close>: each pair overwrites the field, or adds it.\<close>

fun set_fields :: "fields \<Rightarrow> fields \<Rightarrow> fields" where
  "set_fields [] f = f"
| "set_fields ((k, v) # ups) f = set_fields ups (AList.update k v f)"

text \<open>\<^verbatim>\<open>update_one(q, {"$set": ups})\<close>: only the first matching document changes.\<close>

fun update_one :: "doc list \<Rightarrow> fields \<Rightarrow> fields \<Rightarrow> doc list" where
  "update_one [] q ups = []"
| "update_one (d # ds) q ups =
     (if matches q d then d\<lparr>body := set_fields ups (body d)\<rparr> # ds
      else d # update_one ds q ups)"

subsection \<open>The store adapter\<close>

text \<open>
  Modelled from the spec: \<^verbatim>\<open>create_document\<close> of the module \<^verbatim>\<open>database\<close>,
  which is imported by \<^verbatim>\<open>main.py\<close> and is not among the sources.  The specification
  (4.1): \<^verbatim>\<open>create(collection, document) -> id\<close>, a single-document write that returns
  the identifier the store assigned; every operation fails with Unavailable when there is
  no store.
\<close>

definition create_document :: "db \<Rightarrow> string \<Rightarrow> fields \<Rightarrow> error + (nat \<times> db)" where
  "create_document d c f =
     (case d of
        None \<Rightarrow> Inl Unavailable
      | Some s \<Rightarrow>
          Inr (next_oid s,
               Some (s\<lparr>colls := (colls s)(c := colls s c @ [\<lparr>oid = next_oid s, body = f\<rparr>]),
                       next_oid := Suc (next_oid s)\<rparr>)))"

text \<open>
  Modelled from the spec: \<^verbatim>\<open>get_documents\<close> of the module \<^verbatim>\<open>database\<close>.  The
  specification (4.1): \<^verbatim>\<open>list(collection, filter?, limit?)\<close> returns the documents of
  the collection that match the filter, in store-native order, at most \<^verbatim>\<open>limit\<close> of
  them; it fails with Unavailable when there is no store.
\<close>

definition get_documents :: "db \<Rightarrow> string \<Rightarrow> fields \<Rightarrow> int option \<Rightarrow> error + doc list" where
  "get_documents d c q lim =
     (case d of
        None \<Rightarrow> Inl Unavailable
      | Some s \<Rightarrow>
          (let found = filter (matches q) (colls s c)
           in Inr (case lim of None \<Rightarrow> found | Some n \<Rightarrow> take (nat n) found)))"

text \<open>
  \<^verbatim>\<open>m["_id"] = str(m["_id"])\<close>: the document as the handlers return it, a dict whose
  identifier is a string.  Identifiers are rendered in decimal.
\<close>

fun digits :: "nat \<Rightarrow> string" where
  "digits n =
     (if n < 10 then [char_of (48 + n)] else digits (n div 10) @ [char_of (48 + n mod 10)])"

declare digits.simps [simp del]

definition serialize :: "doc \<Rightarrow> fields" where
  "serialize d = (''_id'', VStr (digits (oid d))) # body d"

section \<open>The handlers\<close>

subsection \<open>Utility helpers\<close>

definition member_by_email :: "db \<Rightarrow> string \<Rightarrow> doc option" where
  "member_by_email d email =
     (case d of
        None \<Rightarrow> None
      | Some s \<Rightarrow> find_one (colls s ''member'') [(''email'', VStr email)])"

text \<open>
  \<^verbatim>\<open>if not m\<close>: a document that was found carries its identifier, so as a dict it is
  never empty and the test is true exactly when nothing was found.
\<close>

definition ensure_member :: "db \<Rightarrow> string \<Rightarrow> error + doc" where
  "ensure_member d email =
     (case member_by_email d email of
        None \<Rightarrow> Inl (HTTPException 404 ''Member not found'')
      | Some m \<Rightarrow> Inr m)"

definition is_admin :: "db \<Rightarrow> string \<Rightarrow> bool" where
  "is_admin d email =
     (case member_by_email d email of
        None \<Rightarrow> False
      | Some m \<Rightarrow> dict_get (body m) ''role'' = VStr ''admin'')"

definition admin_check :: "db \<Rightarrow> string \<Rightarrow> string \<times> bool" where
  "admin_check d email = (email, is_admin d email)"

text \<open>
  The gate of the admin-only handlers:
  \<^verbatim>\<open>if not x_admin_email or not is_admin(x_admin_email)\<close>.  A missing header and an
  empty one are both falsy.
\<close>

definition admin_denied :: "db \<Rightarrow> string option \<Rightarrow> bool" where
  "admin_denied d x =
     (case x of
        None \<Rightarrow> True
      | Some e \<Rightarrow> e = [] \<or> \<not> is_admin d e)"

subsection \<open>Python's \<^verbatim>\<open>str.lower\<close> and \<^verbatim>\<open>list.sort\<close>\<close>

text \<open>
  \<^verbatim>\<open>str.lower()\<close> on the letters A to Z.  No character outside that range is
  lowered to one of the letters of the three provider names.
\<close>

definition lower_char :: "char \<Rightarrow> char" where
  "lower_char c =
     (let n = (of_char c :: nat) in if 65 \<le> n \<and> n \<le> 90 then char_of (n + 32) else c)"

definition lower :: "string \<Rightarrow> string" where
  "lower s = map lower_char s"

text \<open>
  \<^verbatim>\<open>xs.sort(key=k, reverse=True)\<close>.  A list shorter than two is not compared at all.
  Numbers are ordered among themselves, strings among themselves and lists among
  themselves; any other mix of keys (a string against the number \<^verbatim>\<open>0\<close>, anything
  against \<^verbatim>\<open>None\<close>) raises \<^verbatim>\<open>TypeError\<close>.  The sort is stable, and with
  \<^verbatim>\<open>reverse=True\<close> Python reverses the list, sorts it in ascending order and reverses
  the result, so that elements with equal keys keep their order.
\<close>

fun is_num :: "val \<Rightarrow> bool" where
  "is_num (VNum n) = True"
| "is_num v = False"

fun is_str :: "val \<Rightarrow> bool" where
  "is_str (VStr s) = True"
| "is_str v = False"

fun is_list :: "val \<Rightarrow> bool" where
  "is_list (VList l) = True"
| "is_list v = False"

fun num_of :: "val \<Rightarrow> int" where
  "num_of (VNum n) = n"
| "num_of v = 0"

fun str_of :: "val \<Rightarrow> string" where
  "str_of (VStr s) = s"
| "str_of v = []"

fun list_of :: "val \<Rightarrow> string list" where
  "list_of (VList l) = l"
| "list_of v = []"

definition sort_reverse :: "('a \<Rightarrow> val) \<Rightarrow> 'a list \<Rightarrow> error + 'a list" where
  "sort_reverse k xs =
     (if length xs < 2 then Inr xs
      else if list_all (\<lambda>x. is_num (k x)) xs
        then Inr (rev (sort_key (\<lambda>x. num_of (k x)) (rev xs)))
      else if list_all (\<lambda>x. is_str (k x)) xs
        then Inr (rev (sort_key (\<lambda>x. str_of (k x)) (rev xs)))
      else if list_all (\<lambda>x. is_list (k x)) xs
        then Inr (rev (sort_key (\<lambda>x. list_of (k x)) (rev xs)))
      else Inl TypeError)"

subsection \<open>Administration\<close>

definition list_members :: "db \<Rightarrow> string option \<Rightarrow> error + fields list" where
  "list_members d x_admin_email =
     (if admin_denied d x_admin_email then Inl (HTTPException 403 ''Admin only'')
      else (case get_documents d ''member'' [] None of
              Inl e \<Rightarrow> Inl e
            | Inr members \<Rightarrow> Inr (map serialize members)))"

subsection \<open>Members\<close>

definition register_member :: "db \<Rightarrow> RegisterRequest \<Rightarrow> (error + nat \<times> string) \<times> db" where
  "register_member d payload =
     (if member_by_email d (rr_email payload) \<noteq> None
        then (Inl (HTTPException 400 ''Email already registered''), d)
      else (case create_document d ''member''
                   [(''name'', VStr (rr_name payload)),
                    (''email'', VStr (rr_email payload)),
                    (''role'', VStr ''member''),
                    (''subscription_status'', VStr ''inactive''),
                    (''provider'', VNone),
                    (''plan'', VStr ''$49/mo'')] of
              Inl e \<Rightarrow> (Inl e, d)
            | Inr (inserted_id, d') \<Rightarrow> (Inr (inserted_id, ''Registered''), d')))"

text \<open>
  \<^verbatim>\<open>if role:\<close> and \<^verbatim>\<open>if subscription_status:\<close>: a parameter that is missing and
  one that is the empty string are both falsy, and add nothing to \<^verbatim>\<open>updates\<close>.
\<close>

definition update_entry :: "string \<Rightarrow> string option \<Rightarrow> fields" where
  "update_entry k v =
     (case v of
        None \<Rightarrow> []
      | Some x \<Rightarrow> if x = [] then [] else [(k, VStr x)])"

definition update_member ::
  "db \<Rightarrow> string \<Rightarrow> string option \<Rightarrow> string option \<Rightarrow> string option \<Rightarrow> (error + string) \<times> db"
where
  "update_member d email role subscription_status x_admin_email =
     (if admin_denied d x_admin_email then (Inl (HTTPException 403 ''Admin only''), d)
      else (case ensure_member d email of
              Inl e \<Rightarrow> (Inl e, d)
            | Inr m \<Rightarrow>
                (let updates = update_entry ''role'' role
                               @ update_entry ''subscription_status'' subscription_status
                 in if updates = [] then (Inl (HTTPException 400 ''No updates provided''), d)
                    else (case d of
                            None \<Rightarrow> (Inl TypeError, d)
                          | Some s \<Rightarrow>
                              (Inr ''Updated'',
                               Some (s\<lparr>colls := (colls s)(''member'' :=
                                        update_one (colls s ''member'')
                                          [(''email'', VStr email)] updates)\<rparr>))))))"

subsection \<open>Subscriptions\<close>

definition subscribe ::
  "db \<Rightarrow> SubscribeRequest \<Rightarrow> (error + string \<times> string \<times> string option) \<times> db"
where
  "subscribe d payload =
     (case ensure_member d (sr_email payload) of
        Inl e \<Rightarrow> (Inl e, d)
      | Inr m \<Rightarrow>
          (let provider = lower (sr_provider payload)
           in if provider \<notin> set [''stripe'', ''paypal'', ''invoice'']
                then (Inl (HTTPException 400 ''Invalid provider''), d)
              else
                (case (if provider = ''stripe''
                         then Inr (Some ''https://buy.stripe.com/test_12345'', ''active'', d)
                       else if provider = ''paypal''
                         then Inr (Some ''https://www.paypal.com/checkoutnow?token=TEST123'',
                                   ''active'', d)
                       else (case create_document d ''invoicerequest''
                                    [(''member_email'', VStr (sr_email payload)),
                                     (''company'', opt_str (sr_company payload)),
                                     (''notes'', opt_str (sr_notes payload)),
                                     (''status'', VStr ''requested'')] of
                               Inl e \<Rightarrow> Inl e
                             | Inr (i, d') \<Rightarrow> Inr (None, ''pending'', d'))) of
                   Inl e \<Rightarrow> (Inl e, d)
                 | Inr (checkout_url, status, d1) \<Rightarrow>
                     (case d1 of
                        None \<Rightarrow> (Inl TypeError, d1)
                      | Some s \<Rightarrow>
                          (Inr (''Subscription initiated'', status, checkout_url),
                           Some (s\<lparr>colls := (colls s)(''member'' :=
                                    update_one (colls s ''member'')
                                      [(''email'', VStr (sr_email payload))]
                                      [(''subscription_status'', VStr status),
                                       (''provider'', VStr provider)])\<rparr>))))))"

subsection \<open>Videos and resources\<close>

definition get_videos :: "db \<Rightarrow> error + fields list" where
  "get_videos d =
     (case get_documents d ''video'' [] None of
        Inl e \<Rightarrow> Inl e
      | Inr vids \<Rightarrow> Inr (map serialize vids))"

definition add_video :: "db \<Rightarrow> VideoCreate \<Rightarrow> string option \<Rightarrow> (error + nat \<times> string) \<times> db" where
  "add_video d payload x_admin_email =
     (if admin_denied d x_admin_email then (Inl (HTTPException 403 ''Admin only''), d)
      else (case create_document d ''video'' (video_dump payload) of
              Inl e \<Rightarrow> (Inl e, d)
            | Inr (vid_id, d') \<Rightarrow> (Inr (vid_id, ''Video added''), d')))"

definition get_resources :: "db \<Rightarrow> error + fields list" where
  "get_resources d =
     (case get_documents d ''resource'' [] None of
        Inl e \<Rightarrow> Inl e
      | Inr items \<Rightarrow> Inr (map serialize items))"

definition add_resource ::
  "db \<Rightarrow> ResourceCreate \<Rightarrow> string option \<Rightarrow> (error + nat \<times> string) \<times> db"
where
  "add_resource d payload x_admin_email =
     (if admin_denied d x_admin_email then (Inl (HTTPException 403 ''Admin only''), d)
      else (case create_document d ''resource'' (resource_dump payload) of
              Inl e \<Rightarrow> (Inl e, d)
            | Inr (res_id, d') \<Rightarrow> (Inr (res_id, ''Resource added''), d')))"

subsection \<open>Community messages\<close>

text \<open>The sort key of \<^verbatim>\<open>list_messages\<close>: \<^verbatim>\<open>x.get("created_at", 0)\<close>.\<close>

definition created_at_key :: "fields \<Rightarrow> val" where
  "created_at_key x = dict_get_or x ''created_at'' (VNum 0)"

text \<open>\<^verbatim>\<open>channel: str = "general", limit: int = 50\<close>: both parameters are optional.\<close>

definition list_messages :: "db \<Rightarrow> string option \<Rightarrow> int option \<Rightarrow> error + fields list" where
  "list_messages d channel limit =
     (let ch = (case channel of None \<Rightarrow> ''general'' | Some c \<Rightarrow> c);
          lim = (case limit of None \<Rightarrow> 50 | Some n \<Rightarrow> n)
      in case get_documents d ''message'' [(''channel'', VStr ch)] (Some lim) of
           Inl e \<Rightarrow> Inl e
         | Inr msgs \<Rightarrow> sort_reverse created_at_key (map serialize msgs))"

definition post_message :: "db \<Rightarrow> MessageCreate \<Rightarrow> (error + nat \<times> string) \<times> db" where
  "post_message d payload =
     (case ensure_member d (mc_member_email payload) of
        Inl e \<Rightarrow> (Inl e, d)
      | Inr m \<Rightarrow>
          if dict_get (body m) ''subscription_status''
               \<notin> set [VStr ''active'', VStr ''past_due'', VStr ''pending'']
            then (Inl (HTTPException 403 ''Subscription required''), d)
          else (case create_document d ''message'' (message_dump payload) of
                  Inl e \<Rightarrow> (Inl e, d)
                | Inr (msg_id, d') \<Rightarrow> (Inr (msg_id, ''Posted''), d')))"

section \<open>Example data\<close>

text \<open>A store with an administrator and an ordinary member, used to instantiate the theorems.\<close>

definition ann :: doc where
  "ann = \<lparr>oid = 0, body =
     [(''name'', VStr ''Ann''), (''email'', VStr ''ann@x.com''), (''role'', VStr ''admin''),
      (''subscription_status'', VStr ''active''), (''provider'', VNone),
      (''plan'', VStr ''$49/mo'')]\<rparr>"

definition bob :: doc where
  "bob = \<lparr>oid = 1, body =
     [(''name'', VStr ''Bob''), (''email'', VStr ''bob@x.com''), (''role'', VStr ''member''),
      (''subscription_status'', VStr ''inactive''), (''provider'', VNone),
      (''plan'', VStr ''$49/mo'')]\<rparr>"

definition club :: store where
  "club = \<lparr>colls = (\<lambda>c. if c = ''member'' then [ann, bob] else []), next_oid = 2\<rparr>"

definition demo_video :: VideoCreate where
  "demo_video = \<lparr>vc_title = ''Intro'', vc_vimeo_id = ''42'', vc_description = None,
     vc_category = None\<rparr>"

definition demo_resource :: ResourceCreate where
  "demo_resource = \<lparr>rc_title = ''Opener'', rc_type = ''prompt'', rc_description = None,
     rc_url = None, rc_tags = Some []\<rparr>"

text \<open>
  A store with three messages in the channel \<^verbatim>\<open>x\<close>, created at the times 1, 2 and 3
  and stored in that order, and one message without a creation time in another channel.
\<close>

definition msg1 :: doc where
  "msg1 = \<lparr>oid = 0, body =
     [(''member_email'', VStr ''ann@x.com''), (''content'', VStr ''first''),
      (''channel'', VStr ''x''), (''created_at'', VNum 1)]\<rparr>"

definition msg2 :: doc where
  "msg2 = \<lparr>oid = 1, body =
     [(''member_email'', VStr ''ann@x.com''), (''content'', VStr ''second''),
      (''channel'', VStr ''x''), (''created_at'', VNum 2)]\<rparr>"

definition msg3 :: doc where
  "msg3 = \<lparr>oid = 2, body =
     [(''member_email'', VStr ''ann@x.com''), (''content'', VStr ''third''),
      (''channel'', VStr ''x''), (''created_at'', VNum 3)]\<rparr>"

definition msg4 :: doc where
  "msg4 = \<lparr>oid = 3, body =
     [(''member_email'', VStr ''ann@x.com''), (''content'', VStr ''hello''),
      (''channel'', VStr ''general'')]\<rparr>"

definition chat :: store where
  "chat = \<lparr>colls = (\<lambda>c. if c = ''message'' then [msg1, msg2, msg3, msg4] else []),
     next_oid = 4\<rparr>"

text \<open>
  The listing as the specification words it (4.7): the messages of the channel, sorted by
  creation time descending with a missing time counted as oldest, cut to the \<open>n\<close> most
  recent.
\<close>

definition most_recent :: "store \<Rightarrow> string \<Rightarrow> int \<Rightarrow> fields list" where
  "most_recent s ch n =
     take (nat n)
       (rev (sort_key (\<lambda>x. num_of (created_at_key x))
          (rev (map serialize (filter (matches [(''channel'', VStr ch)]) (colls s ''message''))))))"

section \<open>Lookups\<close>

lemma member_by_email_None_iff:
  "member_by_email d e = None \<longleftrightarrow>
     (\<forall>s. d = Some s \<longrightarrow>
        (\<forall>m \<in> set (colls s ''member''). map_of (body m) ''email'' \<noteq> Some (VStr e)))"
  by (cases d) (auto simp: member_by_email_def find_one_def find_None_iff matches_def)

lemma admin_denied_iff:
  "admin_denied d x \<longleftrightarrow>
     x = None \<or> x = Some [] \<or> (\<exists>e. x = Some e \<and> \<not> is_admin d e)"
  by (cases x) (auto simp: admin_denied_def)

lemma member_by_email_ann: "member_by_email (Some club) ''ann@x.com'' = Some ann"
  by (simp add: member_by_email_def find_one_def matches_def club_def ann_def)

lemma member_by_email_bob: "member_by_email (Some club) ''bob@x.com'' = Some bob"
  by (simp add: member_by_email_def find_one_def matches_def club_def ann_def bob_def)

lemma is_admin_ann: "is_admin (Some club) ''ann@x.com''"
  by (simp add: is_admin_def member_by_email_ann) (simp add: ann_def dict_get_def dict_get_or_def)

lemma not_is_admin_bob: "\<not> is_admin (Some club) ''bob@x.com''"
  by (simp add: is_admin_def member_by_email_bob) (simp add: bob_def dict_get_def dict_get_or_def)

section \<open>The admin gate\<close>

text \<open>
  Claim C3.  Each of the four admin-gated operations (member listing, member update, video
  creation, resource creation), called with an \<^verbatim>\<open>X-Admin-Email\<close> header that is
  missing, empty, or the email of no member with role \<^verbatim>\<open>admin\<close>, fails with
  403 \<^verbatim>\<open>Admin only\<close> (Forbidden) and returns the store it was given: nothing is
  created and nothing is modified.
\<close>

theorem admin_gate_forbidden:
  assumes "x = None \<or> x = Some [] \<or> (\<exists>e. x = Some e \<and> \<not> is_admin d e)"
  shows "list_members d x = Inl (HTTPException 403 ''Admin only'')
    \<and> update_member d email role st x = (Inl (HTTPException 403 ''Admin only''), d)
    \<and> add_video d v x = (Inl (HTTPException 403 ''Admin only''), d)
    \<and> add_resource d r x = (Inl (HTTPException 403 ''Admin only''), d)"
proof -
  from assms have g: "admin_denied d x"
    by (simp add: admin_denied_iff)
  show ?thesis
    by (simp add: g list_members_def update_member_def add_video_def add_resource_def)
qed

theorem admin_gate_forbidden_witness:
  "\<not> is_admin (Some club) ''bob@x.com''
    \<and> list_members (Some club) (Some ''bob@x.com'') = Inl (HTTPException 403 ''Admin only'')
    \<and> update_member (Some club) ''ann@x.com'' (Some ''member'') None (Some ''bob@x.com'')
        = (Inl (HTTPException 403 ''Admin only''), Some club)
    \<and> add_video (Some club) demo_video (Some ''bob@x.com'')
        = (Inl (HTTPException 403 ''Admin only''), Some club)
    \<and> add_resource (Some club) demo_resource (Some ''bob@x.com'')
        = (Inl (HTTPException 403 ''Admin only''), Some club)"
  using admin_gate_forbidden [where x = "Some ''bob@x.com''" and d = "Some club"
      and email = "''ann@x.com''" and role = "Some ''member''" and st = None
      and v = demo_video and r = demo_resource]
    not_is_admin_bob
  by simp

text \<open>
  Claim C10.  With no store handle, \<^verbatim>\<open>member_by_email\<close> finds nobody and
  \<^verbatim>\<open>is_admin\<close> is false for every email, the \<^verbatim>\<open>is_admin\<close> query reports false,
  and every admin-gated operation answers 403 \<^verbatim>\<open>Admin only\<close> (Forbidden), not
  Unavailable, whatever the header is.
\<close>

theorem no_store_forbidden:
  "member_by_email None e = None \<and> \<not> is_admin None e \<and> admin_check None e = (e, False)
    \<and> list_members None x = Inl (HTTPException 403 ''Admin only'')
    \<and> update_member None email role st x = (Inl (HTTPException 403 ''Admin only''), None)
    \<and> add_video None v x = (Inl (HTTPException 403 ''Admin only''), None)
    \<and> add_resource None r x = (Inl (HTTPException 403 ''Admin only''), None)"
proof -
  have m: "member_by_email None e' = None" for e'
    by (simp add: member_by_email_def)
  have a: "\<not> is_admin None e'" for e'
    by (simp add: is_admin_def m)
  have g: "admin_denied None x"
    by (cases x) (simp_all add: admin_denied_def a)
  show ?thesis
    by (simp add: m a g admin_check_def list_members_def update_member_def add_video_def
        add_resource_def)
qed

theorem no_store_forbidden_witness:
  "admin_check None ''ann@x.com'' = (''ann@x.com'', False)
    \<and> list_members None (Some ''ann@x.com'') = Inl (HTTPException 403 ''Admin only'')
    \<and> add_video None demo_video (Some ''ann@x.com'')
        = (Inl (HTTPException 403 ''Admin only''), None)
    \<and> add_resource None demo_resource (Some ''ann@x.com'')
        \<noteq> (Inl Unavailable, None)"
  using no_store_forbidden [where e = "''ann@x.com''" and x = "Some ''ann@x.com''"
      and v = demo_video and r = demo_resource]
  by simp

section \<open>Subscriptions\<close>

text \<open>
  Claim C4.  When no member document carries the email of the payload (or there is no store
  at all), \<^verbatim>\<open>subscribe\<close> fails with 404 \<^verbatim>\<open>Member not found\<close> (NotFound) and the
  store after the call is the store before it: no invoice request is created and no member
  is modified.
\<close>

theorem subscribe_unknown_email:
  assumes "\<forall>s. d = Some s \<longrightarrow>
     (\<forall>m \<in> set (colls s ''member''). map_of (body m) ''email'' \<noteq> Some (VStr (sr_email p)))"
  shows "subscribe d p = (Inl (HTTPException 404 ''Member not found''), d)"
proof -
  from assms have "member_by_email d (sr_email p) = None"
    by (simp only: member_by_email_None_iff)
  then show ?thesis
    by (simp add: subscribe_def ensure_member_def)
qed

theorem subscribe_unknown_email_witness:
  "subscribe (Some club)
     \<lparr>sr_email = ''eve@x.com'', sr_provider = ''invoice'', sr_company = None, sr_notes = None\<rparr>
   = (Inl (HTTPException 404 ''Member not found''), Some club)"
proof -
  have "\<forall>m \<in> set (colls club ''member''). map_of (body m) ''email'' \<noteq> Some (VStr ''eve@x.com'')"
    by (simp add: club_def ann_def bob_def)
  then show ?thesis
    using subscribe_unknown_email [where d = "Some club" and p = "\<lparr>sr_email = ''eve@x.com'',
      sr_provider = ''invoice'', sr_company = None, sr_notes = None\<rparr>"]
    by simp
qed

section \<open>Member update\<close>

text \<open>
  Claim C9.  In \<^verbatim>\<open>update_member\<close>, an empty string for \<^verbatim>\<open>role\<close> or
  \<^verbatim>\<open>subscription_status\<close> counts as not supplied.  For a caller that passes the admin
  gate and a target email that some member carries, a call with \<^verbatim>\<open>role=""\<close> and with
  \<^verbatim>\<open>subscription_status\<close> missing or empty fails with 400
  \<^verbatim>\<open>No updates provided\<close> (BadRequest) and returns the store unchanged.
\<close>

theorem update_member_empty_values:
  assumes admin: "x = Some a" "a \<noteq> []" "is_admin d a"
    and target: "d = Some s" "m \<in> set (colls s ''member'')"
      "map_of (body m) ''email'' = Some (VStr email)"
    and role: "role = Some []"
    and st: "st = None \<or> st = Some []"
  shows "update_member d email role st x = (Inl (HTTPException 400 ''No updates provided''), d)"
proof -
  have g: "\<not> admin_denied d x"
    using admin by (simp add: admin_denied_def)
  have "member_by_email d email \<noteq> None"
    using target by (auto simp: member_by_email_None_iff)
  then obtain m' where m': "ensure_member d email = Inr m'"
    by (auto simp: ensure_member_def)
  have u: "update_entry ''role'' role @ update_entry ''subscription_status'' st = []"
    using role st by (auto simp: update_entry_def)
  show ?thesis
    by (simp add: update_member_def g m' u)
qed

theorem update_member_empty_values_witness:
  "update_member (Some club) ''bob@x.com'' (Some []) (Some []) (Some ''ann@x.com'')
     = (Inl (HTTPException 400 ''No updates provided''), Some club)"
proof -
  have "bob \<in> set (colls club ''member'')"
    by (simp add: club_def)
  moreover have "map_of (body bob) ''email'' = Some (VStr ''bob@x.com'')"
    by (simp add: bob_def)
  ultimately show ?thesis
    using update_member_empty_values [where x = "Some ''ann@x.com''" and a = "''ann@x.com''"
        and d = "Some club" and s = club and m = bob and email = "''bob@x.com''"
        and role = "Some []" and st = "Some []"]
      is_admin_ann
    by simp
qed

lemma member_by_email_Some_iff:
  "member_by_email d e = Some m \<longleftrightarrow>
     (\<exists>s pre post. d = Some s \<and> colls s ''member'' = pre @ m # post
        \<and> (\<forall>m' \<in> set pre. map_of (body m') ''email'' \<noteq> Some (VStr e))
        \<and> map_of (body m) ''email'' = Some (VStr e))"
proof (cases d)
  case None
  then show ?thesis by (simp add: member_by_email_def)
next
  case (Some s)
  have "List.find (matches [(''email'', VStr e)]) (colls s ''member'') = Some m \<longleftrightarrow>
      (\<exists>pre post. colls s ''member'' = pre @ m # post
        \<and> (\<forall>m' \<in> set pre. map_of (body m') ''email'' \<noteq> Some (VStr e))
        \<and> map_of (body m) ''email'' = Some (VStr e))"
    (is "?l \<longleftrightarrow> ?r")
  proof
    assume ?l
    then obtain i where i: "i < length (colls s ''member'')" "matches [(''email'', VStr e)] (colls s ''member'' ! i)"
      "m = colls s ''member'' ! i" "\<forall>j<i. \<not> matches [(''email'', VStr e)] (colls s ''member'' ! j)"
      by (auto simp: find_Some_iff)
    let ?ms = "colls s ''member''"
    have "?ms = take i ?ms @ m # drop (Suc i) ?ms"
      using i(1,3) by (simp add: id_take_nth_drop)
    moreover have "\<forall>m' \<in> set (take i ?ms). map_of (body m') ''email'' \<noteq> Some (VStr e)"
      using i(1,4) by (auto simp: in_set_conv_nth matches_def)
    moreover have "map_of (body m) ''email'' = Some (VStr e)"
      using i(2,3) by (simp add: matches_def)
    ultimately show ?r by blast
  next
    assume ?r
    then obtain pre post where p: "colls s ''member'' = pre @ m # post"
      "\<forall>m' \<in> set pre. map_of (body m') ''email'' \<noteq> Some (VStr e)"
      "map_of (body m) ''email'' = Some (VStr e)" by blast
    have "List.find (matches [(''email'', VStr e)]) (pre @ m # post) = Some m"
      using p(2,3) by (induction pre) (auto simp: matches_def)
    then show ?l by (simp add: p(1))
  qed
  then show ?thesis using Some by (simp add: member_by_email_def find_one_def)
qed

lemma dict_get_str: "dict_get f k = VStr v \<longleftrightarrow> map_of f k = Some (VStr v)"
  by (auto simp: dict_get_def dict_get_or_def split: option.splits)


section \<open>The authorization check\<close>

text \<open>
  Claim C8.  \<^verbatim>\<open>is_admin\<close> is a total function to the booleans: it has no failing
  branch.  It is true exactly when the store is present, some member document carries the
  email, and the first such document in store order (the one \<^verbatim>\<open>find_one\<close> returns)
  has the string \<^verbatim>\<open>admin\<close> as its role; so it is false when no member has the
  email and when the role is any other value or missing.  When at most one member carries
  the email, it is true exactly when a member with that email and role \<^verbatim>\<open>admin\<close>
  exists.
\<close>

theorem is_admin_iff:
  "(is_admin d e \<longleftrightarrow>
      (\<exists>s pre m post. d = Some s \<and> colls s ''member'' = pre @ m # post
         \<and> (\<forall>m' \<in> set pre. map_of (body m') ''email'' \<noteq> Some (VStr e))
         \<and> map_of (body m) ''email'' = Some (VStr e)
         \<and> map_of (body m) ''role'' = Some (VStr ''admin'')))
   \<and> ((\<forall>m \<in> set (colls s ''member''). \<forall>m' \<in> set (colls s ''member'').
          map_of (body m) ''email'' = Some (VStr e) \<and> map_of (body m') ''email'' = Some (VStr e)
            \<longrightarrow> m = m')
        \<longrightarrow> (is_admin (Some s) e \<longleftrightarrow>
               (\<exists>m \<in> set (colls s ''member''). map_of (body m) ''email'' = Some (VStr e)
                  \<and> map_of (body m) ''role'' = Some (VStr ''admin''))))"
proof -
  have first: "is_admin d' e \<longleftrightarrow>
      (\<exists>s pre m post. d' = Some s \<and> colls s ''member'' = pre @ m # post
         \<and> (\<forall>m' \<in> set pre. map_of (body m') ''email'' \<noteq> Some (VStr e))
         \<and> map_of (body m) ''email'' = Some (VStr e)
         \<and> map_of (body m) ''role'' = Some (VStr ''admin''))" for d'
  proof -
    have "is_admin d' e \<longleftrightarrow>
        (\<exists>m. member_by_email d' e = Some m \<and> map_of (body m) ''role'' = Some (VStr ''admin''))"
      by (cases "member_by_email d' e") (simp_all add: is_admin_def dict_get_str)
    also have "\<dots> \<longleftrightarrow> (\<exists>s pre m post. d' = Some s \<and> colls s ''member'' = pre @ m # post
         \<and> (\<forall>m' \<in> set pre. map_of (body m') ''email'' \<noteq> Some (VStr e))
         \<and> map_of (body m) ''email'' = Some (VStr e)
         \<and> map_of (body m) ''role'' = Some (VStr ''admin''))"
      unfolding member_by_email_Some_iff by blast
    finally show ?thesis .
  qed
  have uniq: "is_admin (Some s) e \<longleftrightarrow>
      (\<exists>m \<in> set (colls s ''member''). map_of (body m) ''email'' = Some (VStr e)
          \<and> map_of (body m) ''role'' = Some (VStr ''admin''))"
    if u: "\<forall>m \<in> set (colls s ''member''). \<forall>m' \<in> set (colls s ''member'').
          map_of (body m) ''email'' = Some (VStr e) \<and> map_of (body m') ''email'' = Some (VStr e)
            \<longrightarrow> m = m'"
  proof
    assume "is_admin (Some s) e"
    then obtain pre m post where "colls s ''member'' = pre @ m # post"
      "map_of (body m) ''email'' = Some (VStr e)" "map_of (body m) ''role'' = Some (VStr ''admin'')"
      unfolding first by auto
    then show "\<exists>m \<in> set (colls s ''member''). map_of (body m) ''email'' = Some (VStr e)
          \<and> map_of (body m) ''role'' = Some (VStr ''admin'')"
      by auto
  next
    assume "\<exists>m \<in> set (colls s ''member''). map_of (body m) ''email'' = Some (VStr e)
          \<and> map_of (body m) ''role'' = Some (VStr ''admin'')"
    then obtain m where m: "m \<in> set (colls s ''member'')" "map_of (body m) ''email'' = Some (VStr e)"
      "map_of (body m) ''role'' = Some (VStr ''admin'')" by blast
    then have "member_by_email (Some s) e \<noteq> None"
      by (auto simp: member_by_email_None_iff)
    then obtain m0 where m0: "member_by_email (Some s) e = Some m0" by blast
    then have "m0 \<in> set (colls s ''member'')" "map_of (body m0) ''email'' = Some (VStr e)"
      by (auto simp: member_by_email_Some_iff)
    with u m have "m0 = m" by blast
    with m0 m(3) show "is_admin (Some s) e"
      by (simp add: is_admin_def dict_get_str)
  qed
  from first [of d] uniq show ?thesis by blast
qed

theorem is_admin_iff_witness:
  "is_admin (Some club) ''ann@x.com'' \<and> \<not> is_admin (Some club) ''bob@x.com''"
proof -
  have u: "\<forall>m \<in> set (colls club ''member''). \<forall>m' \<in> set (colls club ''member'').
          map_of (body m) ''email'' = Some (VStr e) \<and> map_of (body m') ''email'' = Some (VStr e)
            \<longrightarrow> m = m'" for e
    by (auto simp: club_def ann_def bob_def)
  have a: "is_admin (Some club) ''ann@x.com'' \<longleftrightarrow>
     (\<exists>m \<in> set (colls club ''member''). map_of (body m) ''email'' = Some (VStr ''ann@x.com'')
                  \<and> map_of (body m) ''role'' = Some (VStr ''admin''))"
    using is_admin_iff [where s = club and e = "''ann@x.com''" and d = None, THEN conjunct2] u
    by (rule mp)
  have b: "is_admin (Some club) ''bob@x.com'' \<longleftrightarrow>
     (\<exists>m \<in> set (colls club ''member''). map_of (body m) ''email'' = Some (VStr ''bob@x.com'')
                  \<and> map_of (body m) ''role'' = Some (VStr ''admin''))"
    using is_admin_iff [where s = club and e = "''bob@x.com''" and d = None, THEN conjunct2] u
    by (rule mp)
  show ?thesis
    unfolding a b by (simp add: club_def ann_def bob_def)
qed


section \<open>Registration\<close>

text \<open>
  Claim C6.  On a present store, registration with an email that some member document
  already carries fails with 400 \<^verbatim>\<open>Email already registered\<close> (Conflict) and leaves
  the store unchanged.  Registration with a fresh email appends exactly one member document
  with role \<^verbatim>\<open>member\<close>, subscription status \<^verbatim>\<open>inactive\<close>, provider
  \<^verbatim>\<open>None\<close> and plan \<^verbatim>\<open>$49/mo\<close>, and returns the identifier of that
  document.  A second registration with the same email, after any first one, is a Conflict.
\<close>

theorem register_member_conflict_or_insert:
  "((\<exists>m \<in> set (colls s ''member''). map_of (body m) ''email'' = Some (VStr (rr_email p)))
      \<longrightarrow> register_member (Some s) p
            = (Inl (HTTPException 400 ''Email already registered''), Some s))
   \<and> ((\<forall>m \<in> set (colls s ''member''). map_of (body m) ''email'' \<noteq> Some (VStr (rr_email p)))
      \<longrightarrow> register_member (Some s) p
            = (Inr (next_oid s, ''Registered''),
               Some (s\<lparr>colls := (colls s)(''member'' := colls s ''member'' @
                         [\<lparr>oid = next_oid s, body =
                            [(''name'', VStr (rr_name p)), (''email'', VStr (rr_email p)),
                             (''role'', VStr ''member''),
                             (''subscription_status'', VStr ''inactive''),
                             (''provider'', VNone), (''plan'', VStr ''$49/mo'')]\<rparr>]),
                       next_oid := Suc (next_oid s)\<rparr>)))
   \<and> (rr_email p' = rr_email p
      \<longrightarrow> register_member (snd (register_member (Some s) p)) p'
            = (Inl (HTTPException 400 ''Email already registered''),
               snd (register_member (Some s) p)))"
proof (intro conjI impI)
  assume "\<exists>m \<in> set (colls s ''member''). map_of (body m) ''email'' = Some (VStr (rr_email p))"
  then have "member_by_email (Some s) (rr_email p) \<noteq> None"
    by (simp add: member_by_email_None_iff)
  then show "register_member (Some s) p
            = (Inl (HTTPException 400 ''Email already registered''), Some s)"
    by (simp add: register_member_def)
next
  assume "\<forall>m \<in> set (colls s ''member''). map_of (body m) ''email'' \<noteq> Some (VStr (rr_email p))"
  then have "member_by_email (Some s) (rr_email p) = None"
    by (simp add: member_by_email_None_iff)
  then show "register_member (Some s) p
            = (Inr (next_oid s, ''Registered''),
               Some (s\<lparr>colls := (colls s)(''member'' := colls s ''member'' @
                         [\<lparr>oid = next_oid s, body =
                            [(''name'', VStr (rr_name p)), (''email'', VStr (rr_email p)),
                             (''role'', VStr ''member''),
                             (''subscription_status'', VStr ''inactive''),
                             (''provider'', VNone), (''plan'', VStr ''$49/mo'')]\<rparr>]),
                       next_oid := Suc (next_oid s)\<rparr>))"
    by (simp add: register_member_def create_document_def)
next
  assume e: "rr_email p' = rr_email p"
  have "member_by_email (snd (register_member (Some s) p)) (rr_email p) \<noteq> None"
  proof (cases "member_by_email (Some s) (rr_email p)")
    case None
    then show ?thesis
      by (simp add: register_member_def create_document_def member_by_email_None_iff)
  next
    case (Some m)
    then show ?thesis by (simp add: register_member_def)
  qed
  then show "register_member (snd (register_member (Some s) p)) p'
            = (Inl (HTTPException 400 ''Email already registered''),
               snd (register_member (Some s) p))"
    using e by (simp add: register_member_def [of _ p'])
qed

theorem register_member_conflict_or_insert_witness:
  "register_member (Some club) \<lparr>rr_name = ''Bobby'', rr_email = ''bob@x.com''\<rparr>
     = (Inl (HTTPException 400 ''Email already registered''), Some club)
   \<and> fst (register_member (Some club) \<lparr>rr_name = ''Eve'', rr_email = ''eve@x.com''\<rparr>)
     = Inr (2, ''Registered'')"
proof -
  have old: "\<exists>m \<in> set (colls club ''member'').
      map_of (body m) ''email'' = Some (VStr (rr_email \<lparr>rr_name = ''Bobby'', rr_email = ''bob@x.com''\<rparr>))"
    by (simp add: club_def ann_def bob_def)
  have fresh: "\<forall>m \<in> set (colls club ''member'').
      map_of (body m) ''email'' \<noteq> Some (VStr (rr_email \<lparr>rr_name = ''Eve'', rr_email = ''eve@x.com''\<rparr>))"
    by (simp add: club_def ann_def bob_def)
  have 1: "register_member (Some club) \<lparr>rr_name = ''Bobby'', rr_email = ''bob@x.com''\<rparr>
     = (Inl (HTTPException 400 ''Email already registered''), Some club)"
    using register_member_conflict_or_insert [where s = club
        and p = "\<lparr>rr_name = ''Bobby'', rr_email = ''bob@x.com''\<rparr>", THEN conjunct1] old
    by (rule mp)
  have 2: "fst (register_member (Some club) \<lparr>rr_name = ''Eve'', rr_email = ''eve@x.com''\<rparr>)
     = Inr (next_oid club, ''Registered'')"
    using register_member_conflict_or_insert [where s = club
        and p = "\<lparr>rr_name = ''Eve'', rr_email = ''eve@x.com''\<rparr>", THEN conjunct2, THEN conjunct1]
      fresh
    by simp
  show ?thesis using 1 2 by (simp add: club_def)
qed

section \<open>Posting a message\<close>

text \<open>
  Claim C7.  \<^verbatim>\<open>post_message\<close> fails with 404 \<^verbatim>\<open>Member not found\<close> (NotFound)
  when no member document carries the author's email, and with 403
  \<^verbatim>\<open>Subscription required\<close> (Forbidden) when the author's subscription status is
  none of \<^verbatim>\<open>active\<close>, \<^verbatim>\<open>past_due\<close>, \<^verbatim>\<open>pending\<close> (so
  \<^verbatim>\<open>inactive\<close>, \<^verbatim>\<open>canceled\<close> and a missing status are rejected); in both cases
  the store is unchanged.  Otherwise it appends exactly one message document that carries
  the author's email, the content and the channel, and returns its identifier.  A payload
  without a channel has the channel \<^verbatim>\<open>general\<close>.
\<close>

theorem post_message_gate:
  "((\<forall>s. d = Some s \<longrightarrow>
       (\<forall>m \<in> set (colls s ''member''). map_of (body m) ''email'' \<noteq> Some (VStr (mc_member_email p))))
      \<longrightarrow> post_message d p = (Inl (HTTPException 404 ''Member not found''), d))
   \<and> (member_by_email d (mc_member_email p) = Some m
        \<and> map_of (body m) ''subscription_status''
             \<notin> {Some (VStr ''active''), Some (VStr ''past_due''), Some (VStr ''pending'')}
      \<longrightarrow> post_message d p = (Inl (HTTPException 403 ''Subscription required''), d))
   \<and> (member_by_email (Some s) (mc_member_email p) = Some m
        \<and> map_of (body m) ''subscription_status''
             \<in> {Some (VStr ''active''), Some (VStr ''past_due''), Some (VStr ''pending'')}
      \<longrightarrow> post_message (Some s) p
            = (Inr (next_oid s, ''Posted''),
               Some (s\<lparr>colls := (colls s)(''message'' := colls s ''message'' @
                         [\<lparr>oid = next_oid s, body =
                            [(''member_email'', VStr (mc_member_email p)),
                             (''content'', VStr (mc_content p)),
                             (''channel'', VStr (mc_channel p))]\<rparr>]),
                       next_oid := Suc (next_oid s)\<rparr>)))
   \<and> mc_channel (message_create e c None) = ''general''
   \<and> mc_channel (message_create e c (Some ch)) = ch"
proof (intro conjI impI)
  assume "\<forall>s. d = Some s \<longrightarrow>
       (\<forall>m \<in> set (colls s ''member''). map_of (body m) ''email'' \<noteq> Some (VStr (mc_member_email p)))"
  then have "member_by_email d (mc_member_email p) = None"
    by (simp only: member_by_email_None_iff)
  then show "post_message d p = (Inl (HTTPException 404 ''Member not found''), d)"
    by (simp add: post_message_def ensure_member_def)
next
  assume a: "member_by_email d (mc_member_email p) = Some m
        \<and> map_of (body m) ''subscription_status''
             \<notin> {Some (VStr ''active''), Some (VStr ''past_due''), Some (VStr ''pending'')}"
  then have "dict_get (body m) ''subscription_status''
      \<notin> set [VStr ''active'', VStr ''past_due'', VStr ''pending'']"
    by (simp add: dict_get_str)
  then show "post_message d p = (Inl (HTTPException 403 ''Subscription required''), d)"
    using a by (simp add: post_message_def ensure_member_def)
next
  assume a: "member_by_email (Some s) (mc_member_email p) = Some m
        \<and> map_of (body m) ''subscription_status''
             \<in> {Some (VStr ''active''), Some (VStr ''past_due''), Some (VStr ''pending'')}"
  then have "dict_get (body m) ''subscription_status''
      \<in> set [VStr ''active'', VStr ''past_due'', VStr ''pending'']"
    by (simp add: dict_get_str)
  then show "post_message (Some s) p
            = (Inr (next_oid s, ''Posted''),
               Some (s\<lparr>colls := (colls s)(''message'' := colls s ''message'' @
                         [\<lparr>oid = next_oid s, body =
                            [(''member_email'', VStr (mc_member_email p)),
                             (''content'', VStr (mc_content p)),
                             (''channel'', VStr (mc_channel p))]\<rparr>]),
                       next_oid := Suc (next_oid s)\<rparr>))"
    using a by (simp add: post_message_def ensure_member_def create_document_def message_dump_def)
next
  show "mc_channel (message_create e c None) = ''general''"
    by (simp add: message_create_def)
next
  show "mc_channel (message_create e c (Some ch)) = ch"
    by (simp add: message_create_def)
qed

theorem post_message_gate_witness:
  "post_message (Some club) (message_create ''eve@x.com'' ''hi'' None)
     = (Inl (HTTPException 404 ''Member not found''), Some club)
   \<and> post_message (Some club) (message_create ''bob@x.com'' ''hi'' None)
     = (Inl (HTTPException 403 ''Subscription required''), Some club)
   \<and> fst (post_message (Some club) (message_create ''ann@x.com'' ''hi'' None))
     = Inr (2, ''Posted'')"
proof -
  have e: "mc_member_email (message_create x ''hi'' None) = x" for x
    by (simp add: message_create_def)
  have 1: "\<forall>s. Some club = Some s \<longrightarrow>
       (\<forall>m \<in> set (colls s ''member'').
          map_of (body m) ''email'' \<noteq> Some (VStr (mc_member_email (message_create ''eve@x.com'' ''hi'' None))))"
    by (simp add: e club_def ann_def bob_def)
  have 2: "member_by_email (Some club) (mc_member_email (message_create ''bob@x.com'' ''hi'' None)) = Some bob
        \<and> map_of (body bob) ''subscription_status''
             \<notin> {Some (VStr ''active''), Some (VStr ''past_due''), Some (VStr ''pending'')}"
    by (simp add: e member_by_email_bob) (simp add: bob_def)
  have 3: "member_by_email (Some club) (mc_member_email (message_create ''ann@x.com'' ''hi'' None)) = Some ann
        \<and> map_of (body ann) ''subscription_status''
             \<in> {Some (VStr ''active''), Some (VStr ''past_due''), Some (VStr ''pending'')}"
    by (simp add: e member_by_email_ann) (simp add: ann_def)
  note t = post_message_gate [where d = "Some club" and s = club]
  have r1: "post_message (Some club) (message_create ''eve@x.com'' ''hi'' None)
     = (Inl (HTTPException 404 ''Member not found''), Some club)"
    using t [where p = "message_create ''eve@x.com'' ''hi'' None", THEN conjunct1] 1
    by (rule mp)
  have r2: "post_message (Some club) (message_create ''bob@x.com'' ''hi'' None)
     = (Inl (HTTPException 403 ''Subscription required''), Some club)"
    using t [where p = "message_create ''bob@x.com'' ''hi'' None" and m = bob,
        THEN conjunct2, THEN conjunct1] 2
    by (rule mp)
  note r3' = mp [OF t [where p = "message_create ''ann@x.com'' ''hi'' None" and m = ann,
        THEN conjunct2, THEN conjunct2, THEN conjunct1] 3]
  have r3: "fst (post_message (Some club) (message_create ''ann@x.com'' ''hi'' None))
     = Inr (next_oid club, ''Posted'')"
    by (simp only: r3' fst_conv)
  show ?thesis using r1 r2 r3 by (simp add: club_def)
qed

section \<open>Updating one document\<close>


lemma matches_email [simp]:
  "matches [(''email'', VStr e)] d \<longleftrightarrow> map_of (body d) ''email'' = Some (VStr e)"
  by (simp add: matches_def)

lemma map_of_set_fields_other:
  "k \<notin> fst ` set ups \<Longrightarrow> map_of (set_fields ups f) k = map_of f k"
  by (induction ups f rule: set_fields.induct) (auto simp: update_conv')

lemma update_one_first:
  "(\<forall>x \<in> set pre. \<not> matches q x) \<Longrightarrow> matches q m \<Longrightarrow>
     update_one (pre @ m # post) q ups = pre @ m\<lparr>body := set_fields ups (body m)\<rparr> # post"
  by (induction pre) auto

lemma member_by_email_first:
  "colls s ''member'' = pre @ m # post \<Longrightarrow>
   (\<forall>m' \<in> set pre. map_of (body m') ''email'' \<noteq> Some (VStr e)) \<Longrightarrow>
   map_of (body m) ''email'' = Some (VStr e) \<Longrightarrow>
   member_by_email (Some s) e = Some m"
  unfolding member_by_email_Some_iff by blast

section \<open>Subscription initiation\<close>





section \<open>Partial update of a member\<close>

text \<open>
  Claim C5, amended.  Let the caller pass the admin gate (a non-empty
  \<^verbatim>\<open>X-Admin-Email\<close> header that names an administrator).  Then
  \<^verbatim>\<open>update_member\<close> fails with 404 \<^verbatim>\<open>Member not found\<close> (NotFound) when no
  member carries the target email, and with 400 \<^verbatim>\<open>No updates provided\<close>
  (BadRequest) when the target exists and neither \<^verbatim>\<open>role\<close> nor
  \<^verbatim>\<open>subscription_status\<close> is supplied with a non-empty value; both leave the store
  unchanged.  When at least one of the two is supplied with a non-empty value, the call
  succeeds and the new store differs from the old one only in the first member document
  \<open>m\<close> with the target email: it keeps its identifier, each field supplied with a
  non-empty value gets that value, and every other field (name, email, provider, plan, and
  a field supplied empty or not at all) is as before.
\<close>

theorem update_member_partial:
  assumes admin: "x = Some a" "a \<noteq> []" "is_admin (Some s) a"
  shows "((\<forall>m \<in> set (colls s ''member''). map_of (body m) ''email'' \<noteq> Some (VStr email))
      \<longrightarrow> update_member (Some s) email role st x
            = (Inl (HTTPException 404 ''Member not found''), Some s))
    \<and> ((\<exists>m \<in> set (colls s ''member''). map_of (body m) ''email'' = Some (VStr email))
         \<and> (role = None \<or> role = Some []) \<and> (st = None \<or> st = Some [])
      \<longrightarrow> update_member (Some s) email role st x
            = (Inl (HTTPException 400 ''No updates provided''), Some s))
    \<and> (colls s ''member'' = pre @ m # post
         \<and> (\<forall>m' \<in> set pre. map_of (body m') ''email'' \<noteq> Some (VStr email))
         \<and> map_of (body m) ''email'' = Some (VStr email)
         \<and> ((\<exists>r. role = Some r \<and> r \<noteq> []) \<or> (\<exists>t. st = Some t \<and> t \<noteq> []))
      \<longrightarrow> (\<exists>m'. update_member (Some s) email role st x
                  = (Inr ''Updated'', Some (s\<lparr>colls := (colls s)(''member'' := pre @ m' # post)\<rparr>))
             \<and> oid m' = oid m
             \<and> (\<forall>r. role = Some r \<and> r \<noteq> [] \<longrightarrow> map_of (body m') ''role'' = Some (VStr r))
             \<and> (\<forall>t. st = Some t \<and> t \<noteq> []
                    \<longrightarrow> map_of (body m') ''subscription_status'' = Some (VStr t))
             \<and> (\<forall>k. \<not> (k = ''role'' \<and> (\<exists>r. role = Some r \<and> r \<noteq> []))
                     \<and> \<not> (k = ''subscription_status'' \<and> (\<exists>t. st = Some t \<and> t \<noteq> []))
                    \<longrightarrow> map_of (body m') k = map_of (body m) k)))"
proof (intro conjI impI)
  have g: "\<not> admin_denied (Some s) x"
    using admin by (simp add: admin_denied_def)
  {
    assume "\<forall>m \<in> set (colls s ''member''). map_of (body m) ''email'' \<noteq> Some (VStr email)"
    then have "member_by_email (Some s) email = None"
      by (simp add: member_by_email_None_iff)
    then show "update_member (Some s) email role st x
            = (Inl (HTTPException 404 ''Member not found''), Some s)"
      by (simp add: update_member_def g ensure_member_def)
  next
    assume a: "(\<exists>m \<in> set (colls s ''member''). map_of (body m) ''email'' = Some (VStr email))
         \<and> (role = None \<or> role = Some []) \<and> (st = None \<or> st = Some [])"
    then have "member_by_email (Some s) email \<noteq> None"
      by (simp add: member_by_email_None_iff)
    then obtain m0 where m0: "ensure_member (Some s) email = Inr m0"
      by (auto simp: ensure_member_def)
    have u: "update_entry ''role'' role @ update_entry ''subscription_status'' st = []"
      using a by (auto simp: update_entry_def)
    show "update_member (Some s) email role st x
            = (Inl (HTTPException 400 ''No updates provided''), Some s)"
      by (simp add: update_member_def g m0 u)
  next
    assume a: "colls s ''member'' = pre @ m # post
         \<and> (\<forall>m' \<in> set pre. map_of (body m') ''email'' \<noteq> Some (VStr email))
         \<and> map_of (body m) ''email'' = Some (VStr email)
         \<and> ((\<exists>r. role = Some r \<and> r \<noteq> []) \<or> (\<exists>t. st = Some t \<and> t \<noteq> []))"
    let ?ups = "update_entry ''role'' role @ update_entry ''subscription_status'' st"
    let ?m' = "m\<lparr>body := set_fields ?ups (body m)\<rparr>"
    have em: "ensure_member (Some s) email = Inr m"
      using a member_by_email_first [of s pre m post email] by (simp add: ensure_member_def)
    have ne: "?ups \<noteq> []"
      using a by (auto simp: update_entry_def)
    have upd: "update_one (pre @ m # post) [(''email'', VStr email)] ?ups = pre @ ?m' # post"
      using a by (intro update_one_first) simp_all
    have res: "update_member (Some s) email role st x
                  = (Inr ''Updated'', Some (s\<lparr>colls := (colls s)(''member'' := pre @ ?m' # post)\<rparr>))"
      using a ne upd by (simp add: update_member_def g em)
    have p1: "\<forall>r. role = Some r \<and> r \<noteq> [] \<longrightarrow> map_of (body ?m') ''role'' = Some (VStr r)"
      by (cases st) (auto simp: update_entry_def update_conv')
    have p2: "\<forall>t. st = Some t \<and> t \<noteq> []
                    \<longrightarrow> map_of (body ?m') ''subscription_status'' = Some (VStr t)"
      by (cases role) (auto simp: update_entry_def update_conv')
    have p3: "\<forall>k. \<not> (k = ''role'' \<and> (\<exists>r. role = Some r \<and> r \<noteq> []))
                     \<and> \<not> (k = ''subscription_status'' \<and> (\<exists>t. st = Some t \<and> t \<noteq> []))
                    \<longrightarrow> map_of (body ?m') k = map_of (body m) k"
      by (cases role; cases st) (auto simp: update_entry_def update_conv')
    show "\<exists>m'. update_member (Some s) email role st x
                  = (Inr ''Updated'', Some (s\<lparr>colls := (colls s)(''member'' := pre @ m' # post)\<rparr>))
             \<and> oid m' = oid m
             \<and> (\<forall>r. role = Some r \<and> r \<noteq> [] \<longrightarrow> map_of (body m') ''role'' = Some (VStr r))
             \<and> (\<forall>t. st = Some t \<and> t \<noteq> []
                    \<longrightarrow> map_of (body m') ''subscription_status'' = Some (VStr t))
             \<and> (\<forall>k. \<not> (k = ''role'' \<and> (\<exists>r. role = Some r \<and> r \<noteq> []))
                     \<and> \<not> (k = ''subscription_status'' \<and> (\<exists>t. st = Some t \<and> t \<noteq> []))
                    \<longrightarrow> map_of (body m') k = map_of (body m) k)"
      using res p1 p2 p3 by (intro exI [of _ ?m']) simp
  }
qed

text \<open>
  The claim as stated fails where a field is supplied as the empty string: the administrator
  Ann updates Bob with \<^verbatim>\<open>role=""\<close>, a field is supplied, and the call is not a
  partial update but a BadRequest.
\<close>

theorem update_member_supplied_empty_counterexample:
  "Some [] \<noteq> (None :: string option)
   \<and> update_member (Some club) ''bob@x.com'' (Some []) None (Some ''ann@x.com'')
       = (Inl (HTTPException 400 ''No updates provided''), Some club)"
proof -
  have g: "\<not> admin_denied (Some club) (Some ''ann@x.com'')"
    by (simp add: admin_denied_def is_admin_ann)
  show ?thesis
    by (simp add: update_member_def g ensure_member_def member_by_email_bob update_entry_def)
qed

theorem update_member_partial_witness:
  "\<exists>m'. update_member (Some club) ''bob@x.com'' (Some ''moderator'') None (Some ''ann@x.com'')
       = (Inr ''Updated'', Some (club\<lparr>colls := (colls club)(''member'' := [ann] @ m' # [])\<rparr>))
     \<and> map_of (body m') ''role'' = Some (VStr ''moderator'')
     \<and> map_of (body m') ''name'' = Some (VStr ''Bob'')"
proof -
  have h: "colls club ''member'' = [ann] @ bob # []
         \<and> (\<forall>m' \<in> set [ann]. map_of (body m') ''email'' \<noteq> Some (VStr ''bob@x.com''))
         \<and> map_of (body bob) ''email'' = Some (VStr ''bob@x.com'')
         \<and> ((\<exists>r. Some ''moderator'' = Some r \<and> r \<noteq> []) \<or> (\<exists>t. (None :: string option) = Some t \<and> t \<noteq> []))"
    by (simp add: club_def ann_def bob_def)
  have n: "map_of (body bob) ''name'' = Some (VStr ''Bob'')"
    by (simp add: bob_def)
  note t = update_member_partial [where x = "Some ''ann@x.com''" and a = "''ann@x.com''" and s = club
      and email = "''bob@x.com''" and role = "Some ''moderator''" and st = None
      and pre = "[ann]" and m = bob and post = "[]", OF refl _ is_admin_ann,
      THEN conjunct2, THEN conjunct2, THEN mp, OF _ h]
  have "\<exists>m'. update_member (Some club) ''bob@x.com'' (Some ''moderator'') None (Some ''ann@x.com'')
       = (Inr ''Updated'', Some (club\<lparr>colls := (colls club)(''member'' := [ann] @ m' # [])\<rparr>))
     \<and> map_of (body m') ''role'' = Some (VStr ''moderator'')
     \<and> map_of (body m') ''name'' = map_of (body bob) ''name''"
    using t by auto
  then show ?thesis by (simp only: n)
qed

section \<open>Listing messages\<close>

lemma created_at_key_serialize:
  "created_at_key (serialize m) = dict_get_or (body m) ''created_at'' (VNum 0)"
  by (simp add: created_at_key_def serialize_def dict_get_or_def)

lemma channel_serialize: "map_of (serialize m) ''channel'' = map_of (body m) ''channel''"
  by (simp add: serialize_def)

lemma sort_reverse_num:
  assumes "\<forall>x \<in> set xs. is_num (k x)"
  shows "\<exists>r. sort_reverse k xs = Inr r \<and> mset r = mset xs
    \<and> sorted_wrt (\<lambda>a b. num_of (k b) \<le> num_of (k a)) r"
proof (cases "length xs < 2")
  case True
  then have "xs = [] \<or> (\<exists>x. xs = [x])"
    by (cases xs) (auto simp: length_Suc_conv)
  then have "sorted_wrt (\<lambda>a b. num_of (k b) \<le> num_of (k a)) xs"
    by auto
  with True show ?thesis
    by (simp add: sort_reverse_def)
next
  case False
  let ?f = "\<lambda>x. num_of (k x)"
  let ?r = "rev (sort_key ?f (rev xs))"
  have "sort_reverse k xs = Inr ?r"
    using False assms by (simp add: sort_reverse_def list_all_iff)
  moreover have "mset ?r = mset xs"
    by simp
  moreover have "sorted_wrt (\<lambda>a b. ?f b \<le> ?f a) ?r"
    using sorted_sort_key [of ?f "rev xs"]
    by (simp add: sorted_wrt_rev sorted_map)
  ultimately show ?thesis by blast
qed

lemma chat_fetch_x:
  "get_documents (Some chat) ''message'' [(''channel'', VStr ''x'')] (Some 2) = Inr [msg1, msg2]"
  by (simp add: get_documents_def matches_def chat_def msg1_def msg2_def msg3_def msg4_def)

lemma chat_keys:
  "created_at_key (serialize msg1) = VNum 1"
  "created_at_key (serialize msg2) = VNum 2"
  "created_at_key (serialize msg3) = VNum 3"
  by (simp_all add: created_at_key_serialize dict_get_or_def msg1_def msg2_def msg3_def)

lemma chat_list_x:
  "list_messages (Some chat) (Some ''x'') (Some 2) = Inr [serialize msg2, serialize msg1]"
  by (simp add: list_messages_def chat_fetch_x sort_reverse_def chat_keys)

lemma chat_most_recent:
  "most_recent chat ''x'' 2 = [serialize msg3, serialize msg2]"
proof -
  have "filter (matches [(''channel'', VStr ''x'')]) (colls chat ''message'') = [msg1, msg2, msg3]"
    by (simp add: matches_def chat_def msg1_def msg2_def msg3_def msg4_def)
  then show ?thesis
    by (simp add: most_recent_def chat_keys)
qed

lemma sort_reverse_mset: "sort_reverse k xs = Inr r \<Longrightarrow> mset r = mset xs"
  by (auto simp: sort_reverse_def split: if_splits)

text \<open>
  What the listing does return.  Whenever \<^verbatim>\<open>list_messages\<close> returns, the result is a
  rearrangement of the messages fetched, which are the first \<open>n\<close> messages of the channel
  in store order: at most \<open>n\<close> messages, all of the channel.
\<close>

lemma list_messages_fetched:
  assumes "list_messages (Some s) (Some ch) (Some n) = Inr r"
  shows "length r \<le> nat n
    \<and> (\<forall>x \<in> set r. map_of x ''channel'' = Some (VStr ch))
    \<and> mset r = mset (map serialize (take (nat n)
        (filter (\<lambda>m. map_of (body m) ''channel'' = Some (VStr ch)) (colls s ''message''))))"
proof -
  let ?P = "\<lambda>m. map_of (body m) ''channel'' = Some (VStr ch)"
  let ?fetched = "take (nat n) (filter ?P (colls s ''message''))"
  let ?xs = "map serialize ?fetched"
  have m: "matches [(''channel'', VStr ch)] = ?P"
    by (rule ext) (simp add: matches_def)
  have "list_messages (Some s) (Some ch) (Some n) = sort_reverse created_at_key ?xs"
    by (simp add: list_messages_def get_documents_def m)
  with assms have "sort_reverse created_at_key ?xs = Inr r"
    by simp
  then have ms: "mset r = mset ?xs"
    by (rule sort_reverse_mset)
  have len: "length r \<le> nat n"
  proof -
    have "length r = length ?xs"
      using ms by (rule mset_eq_length)
    then show ?thesis by simp
  qed
  have sr: "set r = set ?xs"
    using ms by (rule mset_eq_setD)
  have chan: "\<forall>x \<in> set r. map_of x ''channel'' = Some (VStr ch)"
  proof
    fix x
    assume "x \<in> set r"
    then have "x \<in> set ?xs"
      by (simp only: sr)
    then obtain d where d: "d \<in> set ?fetched" "x = serialize d"
      by auto
    from d(1) have "d \<in> set (filter ?P (colls s ''message''))"
      by (rule in_set_takeD)
    then have "map_of (body d) ''channel'' = Some (VStr ch)"
      by simp
    then show "map_of x ''channel'' = Some (VStr ch)"
      by (simp only: d(2) channel_serialize)
  qed
  show ?thesis
    by (intro conjI) (rule len chan ms)+
qed

text \<open>
  When every creation time among the fetched messages is a number or missing, the call
  returns, and the fetched messages are ordered newest first by creation time, a missing
  creation time counting as time 0; so a message without a creation time comes after every
  message with a positive one.  Without parameters the channel is \<^verbatim>\<open>general\<close> and the
  limit 50.
\<close>

lemma list_messages_sorted_of_fetched:
  assumes num: "\<forall>m \<in> set (take (nat n)
        (filter (\<lambda>m. map_of (body m) ''channel'' = Some (VStr ch)) (colls s ''message''))).
      is_num (dict_get_or (body m) ''created_at'' (VNum 0))"
  shows "\<exists>r. list_messages (Some s) (Some ch) (Some n) = Inr r
    \<and> length r \<le> nat n
    \<and> mset r = mset (map serialize (take (nat n)
        (filter (\<lambda>m. map_of (body m) ''channel'' = Some (VStr ch)) (colls s ''message''))))
    \<and> (\<forall>x \<in> set r. map_of x ''channel'' = Some (VStr ch))
    \<and> sorted_wrt (\<lambda>a b. num_of (created_at_key b) \<le> num_of (created_at_key a)) r
    \<and> (\<forall>i j t. i < length r \<and> j < length r \<and> map_of (r ! i) ''created_at'' = None
          \<and> map_of (r ! j) ''created_at'' = Some (VNum t) \<and> 0 < t \<longrightarrow> j < i)
    \<and> list_messages (Some s) None None = list_messages (Some s) (Some ''general'') (Some 50)"
proof -
  let ?P = "\<lambda>m. map_of (body m) ''channel'' = Some (VStr ch)"
  let ?fetched = "take (nat n) (filter ?P (colls s ''message''))"
  let ?xs = "map serialize ?fetched"
  have m: "matches [(''channel'', VStr ch)] = ?P"
    by (rule ext) (simp add: matches_def)
  have lm: "list_messages (Some s) (Some ch) (Some n) = sort_reverse created_at_key ?xs"
    by (simp add: list_messages_def get_documents_def m)
  have "\<forall>x \<in> set ?xs. is_num (created_at_key x)"
    using num by (auto simp: created_at_key_serialize)
  from sort_reverse_num [OF this] obtain r where r: "sort_reverse created_at_key ?xs = Inr r"
    "mset r = mset ?xs"
    "sorted_wrt (\<lambda>a b. num_of (created_at_key b) \<le> num_of (created_at_key a)) r"
    by blast
  have len: "length r \<le> nat n"
  proof -
    have "length r = length ?xs"
      using r(2) by (rule mset_eq_length)
    then show ?thesis by simp
  qed
  have sr: "set r = set ?xs"
    using r(2) by (rule mset_eq_setD)
  have chan: "\<forall>x \<in> set r. map_of x ''channel'' = Some (VStr ch)"
  proof
    fix x
    assume "x \<in> set r"
    then have "x \<in> set ?xs"
      by (simp only: sr)
    then obtain m where m: "m \<in> set ?fetched" "x = serialize m"
      by auto
    from m(1) have "m \<in> set (filter ?P (colls s ''message''))"
      by (rule in_set_takeD)
    then have "map_of (body m) ''channel'' = Some (VStr ch)"
      by simp
    then show "map_of x ''channel'' = Some (VStr ch)"
      by (simp only: m(2) channel_serialize)
  qed
  have late: "j < i" if ij: "i < length r" "j < length r"
    and ki: "map_of (r ! i) ''created_at'' = None"
    and kj: "map_of (r ! j) ''created_at'' = Some (VNum t)" and t: "0 < t" for i j t
  proof (rule ccontr)
    assume "\<not> j < i"
    moreover have "i \<noteq> j" using ki kj by auto
    ultimately have "i < j" by simp
    with r(3) ij have "num_of (created_at_key (r ! j)) \<le> num_of (created_at_key (r ! i))"
      by (simp add: sorted_wrt_iff_nth_less)
    then show False
      using ki kj t by (simp add: created_at_key_def dict_get_or_def)
  qed
  have dflt: "list_messages (Some s) None None = list_messages (Some s) (Some ''general'') (Some 50)"
    by (simp add: list_messages_def)
  have late': "\<forall>i j t. i < length r \<and> j < length r \<and> map_of (r ! i) ''created_at'' = None
          \<and> map_of (r ! j) ''created_at'' = Some (VNum t) \<and> 0 < t \<longrightarrow> j < i"
    using late by blast
  have lm': "list_messages (Some s) (Some ch) (Some n) = Inr r"
    by (simp only: lm r(1))
  have ms: "mset r = mset (map serialize (take (nat n)
        (filter (\<lambda>m. map_of (body m) ''channel'' = Some (VStr ch)) (colls s ''message''))))"
    by (rule r(2))
  show ?thesis
    by (intro exI [of _ r] conjI) (rule lm' len ms chan r(3) late' dflt)+
qed


lemma digits_0: "digits 0 = ''0''"
  by code_simp

lemma digits_1: "digits (Suc 0) = ''1''"
  by code_simp

lemma digits_2: "digits 2 = ''2''"
  by code_simp

lemma chat_serialized:
  "serialize msg1 = [(''_id'', VStr ''0''), (''member_email'', VStr ''ann@x.com''),
      (''content'', VStr ''first''), (''channel'', VStr ''x''), (''created_at'', VNum 1)]"
  "serialize msg2 = [(''_id'', VStr ''1''), (''member_email'', VStr ''ann@x.com''),
      (''content'', VStr ''second''), (''channel'', VStr ''x''), (''created_at'', VNum 2)]"
  "serialize msg3 = [(''_id'', VStr ''2''), (''member_email'', VStr ''ann@x.com''),
      (''content'', VStr ''third''), (''channel'', VStr ''x''), (''created_at'', VNum 3)]"
  by (simp_all add: serialize_def msg1_def msg2_def msg3_def digits_0 digits_1 digits_2)

text \<open>
  Claim C1.  Listing is to return at most \<open>N\<close> messages of the channel, newest first, and
  these are to be the \<open>N\<close> most recent messages of the channel: with three messages in
  the channel and limit 2, the two newest, newest first.  The code does not do that.  The
  limit is handed to \<^verbatim>\<open>get_documents\<close>, which cuts in store order, and only what it
  returns is sorted.  On the store \<open>chat\<close>, whose three messages of the channel
  \<^verbatim>\<open>x\<close> were created at the times 1, 2 and 3 and are stored in that order, limit 2
  returns the messages of the times 2 and 1, whereas the two most recent are those of the
  times 3 and 2.
\<close>

theorem list_messages_limit_before_sort:
  "list_messages (Some chat) (Some ''x'') (Some 2)
     = Inr [[(''_id'', VStr ''1''), (''member_email'', VStr ''ann@x.com''),
             (''content'', VStr ''second''), (''channel'', VStr ''x''), (''created_at'', VNum 2)],
            [(''_id'', VStr ''0''), (''member_email'', VStr ''ann@x.com''),
             (''content'', VStr ''first''), (''channel'', VStr ''x''), (''created_at'', VNum 1)]]
   \<and> most_recent chat ''x'' 2
     = [[(''_id'', VStr ''2''), (''member_email'', VStr ''ann@x.com''),
         (''content'', VStr ''third''), (''channel'', VStr ''x''), (''created_at'', VNum 3)],
        [(''_id'', VStr ''1''), (''member_email'', VStr ''ann@x.com''),
         (''content'', VStr ''second''), (''channel'', VStr ''x''), (''created_at'', VNum 2)]]
   \<and> list_messages (Some chat) (Some ''x'') (Some 2) \<noteq> Inr (most_recent chat ''x'' 2)"
  by (simp add: chat_list_x chat_most_recent chat_serialized)

end
